theory Spec2Isabelle
  imports Main "HOL-Library.Sublist"
begin

section \<open>The \<open>/run\<close> handler of the playground backend\<close>

text \<open>
  The backend (\<open>backend/server.js\<close>) has one handler of interest,
  \<open>app.post('/run', ...)\<close>. It validates three request fields, creates a
  directory of its own under \<open>__dirname/tmp\<close>, writes two files into it, starts
  \<open>docker run\<close> through \<open>child_process.exec\<close> and, in the callback of \<open>exec\<close>,
  appends a record to \<open>tmp/docker_output.log\<close>, removes the directory and sends the
  captured output.

  The embedding passes the file system explicitly. What the handler reads from its
  surroundings is an argument: the clock and the random token (\<open>env\<close>), the errors the
  operating system may raise in a file-system call (\<open>faults\<close>) and what becomes of the
  docker process (\<open>docker_run\<close>). Calls of \<open>console.log\<close> and \<open>console.error\<close> are
  left out: they touch neither the file system nor the response.
\<close>

subsection \<open>Strings\<close>

definition nl :: string where
  "nl = [CHR 0x0A]"

definition dquote :: string where
  "dquote = [CHR 0x22]"

definition squote :: string where
  "squote = [CHR 0x27]"

definition digit_char :: "nat \<Rightarrow> char" where
  "digit_char d = ''0123456789'' ! d"

text \<open>The decimal rendering of a number in a template literal, \<open>`${timestamp}`\<close>.\<close>

fun dec :: "nat \<Rightarrow> string" where
  "dec n = (if n < 10 then [digit_char n] else dec (n div 10) @ [digit_char (n mod 10)])"

declare dec.simps [simp del]

subsection \<open>Paths and \<open>path.join\<close>\<close>

text \<open>
  An absolute POSIX path is the list of its segments; \<open>path_str\<close> renders it as the
  string the JavaScript holds. \<open>path.join\<close> of Node glues its arguments with \<open>/\<close>
  and normalises the result: an empty segment and \<open>.\<close> are dropped, \<open>..\<close> removes
  the segment before it and is dropped at the root. \<open>path_join base args\<close> is
  \<open>path.join(base, ...args)\<close> for a base that is already an absolute normalised path,
  which \<open>__dirname\<close> and every result of \<open>path.join\<close> on it are.
\<close>

type_synonym path = "string list"

fun segments :: "string \<Rightarrow> string list" where
  "segments [] = [[]]"
| "segments (c # cs) =
     (if c = CHR ''/'' then [] # segments cs
      else (case segments cs of [] \<Rightarrow> [[c]] | s # ss \<Rightarrow> (c # s) # ss))"

definition push_seg :: "path \<Rightarrow> string \<Rightarrow> path" where
  "push_seg res s =
     (if s = [] \<or> s = ''.'' then res
      else if s = ''..'' then butlast res
      else res @ [s])"

definition path_join :: "path \<Rightarrow> string list \<Rightarrow> path" where
  "path_join base args = foldl push_seg base (concat (map segments args))"

definition path_str :: "path \<Rightarrow> string" where
  "path_str p = (if p = [] then ''/'' else concat (map (\<lambda>s. ''/'' @ s) p))"

text \<open>A path is inside a directory when the directory's segments are a prefix of its own.\<close>

definition inside :: "path \<Rightarrow> path \<Rightarrow> bool" where
  "inside root p \<longleftrightarrow> prefix root p"

subsection \<open>The file system\<close>

text \<open>
  The part of \<open>fs\<close> the handler uses. A call fails with the message of the error it
  throws (\<open>Inl\<close>). Besides the failures that follow from the state (a missing parent
  directory, a directory where a file is expected, a file where a directory is
  expected), the operating system may refuse any call (permissions, a full disk):
  \<open>faults\<close> gives the message of that error, if any. \<open>quoted\<close> is the path as Node
  prints it in a message.
\<close>

record fs =
  dirs :: "path set"
  files :: "path \<rightharpoonup> string"

datatype fs_call = Mkdir path | Write path | Append path | Rm path

type_synonym faults = "fs_call \<Rightarrow> string option"

definition quoted :: "path \<Rightarrow> string" where
  "quoted p = squote @ path_str p @ squote"

definition existsSync :: "path \<Rightarrow> fs \<Rightarrow> bool" where
  "existsSync p w \<longleftrightarrow> p \<in> dirs w \<or> files w p \<noteq> None"

text \<open>\<open>fs.mkdirSync(p, { recursive: true })\<close>: creates the missing ancestors as well.\<close>

definition mkdirSync :: "faults \<Rightarrow> path \<Rightarrow> fs \<Rightarrow> string + fs" where
  "mkdirSync flt p w =
     (case flt (Mkdir p) of
        Some m \<Rightarrow> Inl m
      | None \<Rightarrow>
          if \<exists>q \<in> set (prefixes p). files w q \<noteq> None
          then Inl (if files w p \<noteq> None
                    then ''EEXIST: file already exists, mkdir '' @ quoted p
                    else ''ENOTDIR: not a directory, mkdir '' @ quoted p)
          else Inr (w\<lparr>dirs := dirs w \<union> set (prefixes p)\<rparr>))"

definition writeFileSync :: "faults \<Rightarrow> path \<Rightarrow> string \<Rightarrow> fs \<Rightarrow> string + fs" where
  "writeFileSync flt p c w =
     (case flt (Write p) of
        Some m \<Rightarrow> Inl m
      | None \<Rightarrow>
          if p \<in> dirs w
          then Inl (''EISDIR: illegal operation on a directory, open '' @ quoted p)
          else if butlast p \<notin> dirs w
          then Inl (if \<exists>q \<in> set (prefixes (butlast p)). files w q \<noteq> None
                    then ''ENOTDIR: not a directory, open '' @ quoted p
                    else ''ENOENT: no such file or directory, open '' @ quoted p)
          else Inr (w\<lparr>files := (files w)(p \<mapsto> c)\<rparr>))"

definition appendFileSync :: "faults \<Rightarrow> path \<Rightarrow> string \<Rightarrow> fs \<Rightarrow> string + fs" where
  "appendFileSync flt p c w =
     (case flt (Append p) of
        Some m \<Rightarrow> Inl m
      | None \<Rightarrow>
          if p \<in> dirs w
          then Inl (''EISDIR: illegal operation on a directory, open '' @ quoted p)
          else if butlast p \<notin> dirs w
          then Inl (if \<exists>q \<in> set (prefixes (butlast p)). files w q \<noteq> None
                    then ''ENOTDIR: not a directory, open '' @ quoted p
                    else ''ENOENT: no such file or directory, open '' @ quoted p)
          else Inr (w\<lparr>files := (files w)(p \<mapsto> (case files w p of None \<Rightarrow> c | Some old \<Rightarrow> old @ c))\<rparr>))"

text \<open>
  \<open>fs.rmSync(p, { recursive: true, force: true })\<close>: removes \<open>p\<close> and all below it; a
  path that does not exist is no error. When the call throws, \<open>p\<close> itself is still
  there; the model leaves the whole tree in place.
\<close>

definition rmSync :: "faults \<Rightarrow> path \<Rightarrow> fs \<Rightarrow> string + fs" where
  "rmSync flt p w =
     (case flt (Rm p) of
        Some m \<Rightarrow> Inl m
      | None \<Rightarrow>
          Inr \<lparr>dirs = {d \<in> dirs w. \<not> inside p d},
               files = (\<lambda>q. if inside p q then None else files w q)\<rparr>)"

subsection \<open>Requests, responses and the surroundings\<close>

text \<open>
  \<open>req.body\<close> after \<open>express.json()\<close> is an object, here a \<open>request\<close>, or
  \<open>undefined\<close>, here \<open>None\<close>, when no JSON body was parsed (express 5; express 4
  puts the empty object there, which is the \<open>request\<close> with three absent fields).
  Each field of the object is a string or absent (the values the editor sends; numbers,
  lists and objects in their place are not modelled). \<open>falsy\<close> is JavaScript's
  \<open>!x\<close> on such a field: true for an absent field and for the empty string.
  \<open>str\<close> is the string a field holds; the handler reads it only after validation,
  when the field is there. \<open>destructureError\<close> is the message of the \<open>TypeError\<close>
  that \<open>const { contractCode, testCode, entryName } = req.body\<close> throws on
  \<open>undefined\<close>.
\<close>

record request =
  contractCode :: "string option"
  testCode :: "string option"
  entryName :: "string option"

definition falsy :: "string option \<Rightarrow> bool" where
  "falsy x \<longleftrightarrow> x = None \<or> x = Some []"

definition str :: "string option \<Rightarrow> string" where
  "str x = (case x of None \<Rightarrow> [] | Some s \<Rightarrow> s)"

definition destructureError :: string where
  "destructureError =
     ''Cannot destructure property '' @ squote @ ''contractCode'' @ squote @ '' of '' @
     squote @ ''req.body'' @ squote @ '' as it is undefined.''"

datatype body = Json "(string \<times> string) list" | Text string

record response =
  status :: nat
  body :: body

text \<open>
  \<open>dirname\<close> is \<open>__dirname\<close>, \<open>timestamp\<close> is \<open>Date.now()\<close>, \<open>randomId\<close> is the value of
  \<open>Math.random().toString(36).substring(2, 15)\<close>, at most thirteen digits of base 36,
  \<open>isoTime\<close> is \<open>new Date().toISOString()\<close> in the callback, and \<open>flt\<close> are the
  refusals of the operating system. \<open>wf_env\<close> says of the token what \<open>toString(36)\<close>
  and \<open>substring\<close> make sure of.
\<close>

record env =
  dirname :: path
  timestamp :: nat
  randomId :: string
  isoTime :: string
  flt :: faults

definition base36 :: "char \<Rightarrow> bool" where
  "base36 c \<longleftrightarrow> c \<in> set ''0123456789abcdefghijklmnopqrstuvwxyz''"

definition wf_env :: "env \<Rightarrow> bool" where
  "wf_env e \<longleftrightarrow> list_all base36 (randomId e) \<and> length (randomId e) \<le> 13"

text \<open>
  What becomes of the process \<open>exec\<close> starts. \<open>exec\<close> is called with the command and
  the callback only: no \<open>timeout\<close> option, so nothing ends a process that does not end
  by itself, and the callback runs when the process has closed, with \<open>error\<close>
  (here its \<open>message\<close>, when there is one), \<open>stdout\<close> and \<open>stderr\<close>.

  The outcome says nothing of what the command does to the file system of the host, and
  \<open>run\<close> below takes it to do nothing there, as \<open>docker run\<close> of the test image
  with its two mounted files does. The entry name stands in \<open>dockerCommand\<close> as it
  came, and \<open>exec\<close> hands the string to \<open>/bin/sh\<close>: an entry name with shell
  syntax in it makes the shell run commands of its own, and what those do is not
  followed. The statements on where the handler writes (C1, C8) are therefore about
  the handler's own calls of \<open>fs\<close>, step by step, and not about \<open>run\<close>.
\<close>

datatype docker_run = Exited "string option" string string | Never_exits

subsection \<open>The handler\<close>

definition tmpDir :: "env \<Rightarrow> path" where
  "tmpDir e = path_join (dirname e) [''tmp'']"

definition uniqueTempDir :: "env \<Rightarrow> path" where
  "uniqueTempDir e = path_join (dirname e) [''tmp'', dec (timestamp e) @ ''_'' @ randomId e]"

definition contractFile :: "env \<Rightarrow> request \<Rightarrow> path" where
  "contractFile e r = path_join (uniqueTempDir e) [str (entryName r) @ ''.py'']"

definition testFile :: "env \<Rightarrow> path" where
  "testFile e = path_join (uniqueTempDir e) [''test.py'']"

definition contractMountPath :: "request \<Rightarrow> string" where
  "contractMountPath r = ''/app/hathor/nanocontracts/blueprints/'' @ str (entryName r) @ ''.py''"

definition testMountPath :: string where
  "testMountPath = ''/app/tests/nanocontracts/blueprints/test.py''"

definition dockerCommand :: "env \<Rightarrow> request \<Rightarrow> string" where
  "dockerCommand e r =
     ''docker run --rm '' @
     ''-v '' @ dquote @ path_str (contractFile e r) @ '':'' @ contractMountPath r @ dquote @ '' '' @
     ''-v '' @ dquote @ path_str (testFile e) @ '':'' @ testMountPath @ dquote @ '' '' @
     ''obiyankenobi/hathor-core-test-image '' @
     ''-v tests/nanocontracts/blueprints/test.py''"

definition logFile :: "env \<Rightarrow> path" where
  "logFile e = path_join (dirname e) [''tmp'', ''docker_output.log'']"

definition logContent :: "env \<Rightarrow> request \<Rightarrow> string option \<Rightarrow> string \<Rightarrow> string \<Rightarrow> string" where
  "logContent e r err out errout =
     nl @ ''=== Docker Execution Log ==='' @ nl @
     ''Timestamp: '' @ isoTime e @ nl @
     ''Command: '' @ dockerCommand e r @ nl @
     ''Entry: '' @ str (entryName r) @ nl @
     ''Temp Dir: '' @ path_str (uniqueTempDir e) @ nl @
     nl @
     ''=== STDOUT ==='' @ nl @
     (if out = [] then ''(no stdout)'' else out) @ nl @
     nl @
     ''=== STDERR ==='' @ nl @
     (if errout = [] then ''(no stderr)'' else errout) @ nl @
     nl @
     ''=== ERROR ==='' @ nl @
     (case err of Some m \<Rightarrow> m | None \<Rightarrow> ''(no error)'') @ nl @
     nl @
     ''=== END LOG ==='' @ nl @
     nl"

text \<open>
  The synchronous part after validation: the directory, then the two files. An error
  thrown here leaves the state reached so far and goes to the \<open>catch\<close> block.
\<close>

definition stage :: "env \<Rightarrow> request \<Rightarrow> fs \<Rightarrow> (string \<times> fs) + fs" where
  "stage e r w =
     (case mkdirSync (flt e) (uniqueTempDir e) w of
        Inl m \<Rightarrow> Inl (m, w)
      | Inr w1 \<Rightarrow>
          (case writeFileSync (flt e) (contractFile e r) (str (contractCode r)) w1 of
             Inl m \<Rightarrow> Inl (m, w1)
           | Inr w2 \<Rightarrow>
               (case writeFileSync (flt e) (testFile e) (str (testCode r)) w2 of
                  Inl m \<Rightarrow> Inl (m, w2)
                | Inr w3 \<Rightarrow> Inr w3)))"

text \<open>
  The \<open>try\<close> block of the callback that appends the log record: an error of
  \<open>mkdirSync\<close> or \<open>appendFileSync\<close> is caught, and what was done before it stays.
\<close>

definition appendLog :: "env \<Rightarrow> string \<Rightarrow> fs \<Rightarrow> fs" where
  "appendLog e content w =
     (case (if \<not> existsSync (tmpDir e) w then mkdirSync (flt e) (tmpDir e) w else Inr w) of
        Inl m \<Rightarrow> w
      | Inr w1 \<Rightarrow>
          (case appendFileSync (flt e) (logFile e) content w1 of
             Inl m \<Rightarrow> w1
           | Inr w2 \<Rightarrow> w2))"

text \<open>
  \<open>cleanup\<close> of the callback. \<open>uniqueTempDir\<close> is a non-empty string by then, so its
  truth test passes; an error of \<open>rmSync\<close> is caught.
\<close>

definition cleanup :: "env \<Rightarrow> fs \<Rightarrow> fs" where
  "cleanup e w =
     (if existsSync (uniqueTempDir e) w
      then (case rmSync (flt e) (uniqueTempDir e) w of Inl m \<Rightarrow> w | Inr w1 \<Rightarrow> w1)
      else w)"

definition output_text :: "string \<Rightarrow> string \<Rightarrow> string" where
  "output_text out errout = out @ (if errout \<noteq> [] then nl @ errout else [])"

definition execCallback :: "env \<Rightarrow> request \<Rightarrow> string option \<Rightarrow> string \<Rightarrow> string \<Rightarrow> fs \<Rightarrow> fs \<times> response option" where
  "execCallback e r err out errout w =
     (let w1 = appendLog e (logContent e r err out errout) w;
          w2 = cleanup e w1
      in (w2, Some \<lparr>status = 200, body = Text (output_text out errout)\<rparr>))"

text \<open>
  The \<open>catch\<close> block, with the message of the error caught. \<open>dir\<close> is the variable
  \<open>uniqueTempDir\<close> at the throw: \<open>null\<close>, here \<open>None\<close>, until the path is assigned
  to it, which is before \<open>mkdirSync\<close>. The lines that remove the directory are those
  of \<open>cleanup\<close> again.
\<close>

definition catchBlock :: "env \<Rightarrow> path option \<Rightarrow> string \<Rightarrow> fs \<Rightarrow> fs \<times> response option" where
  "catchBlock e dir m w =
     ((case dir of
         None \<Rightarrow> w
       | Some p \<Rightarrow>
           if existsSync p w
           then (case rmSync (flt e) p w of Inl x \<Rightarrow> w | Inr w1 \<Rightarrow> w1)
           else w),
      Some \<lparr>status = 500, body = Text (''Server error: '' @ m)\<rparr>)"

text \<open>
  The handler on \<open>req.body\<close>: the state it leaves and the response it sends,
  \<open>None\<close> when it never sends one. The destructuring is the first statement of the
  \<open>try\<close> block, so its error goes to the \<open>catch\<close> block like any other.
  \<open>run\<close> is one request on its own, the callback following the synchronous
  part at once. On a server with several requests each of \<open>stage\<close> (with
  \<open>catchBlock\<close> when it throws) and \<open>execCallback\<close> runs to its end before anything
  else does, and steps of other requests may come between the two.
\<close>

definition run :: "env \<Rightarrow> request option \<Rightarrow> docker_run \<Rightarrow> fs \<Rightarrow> fs \<times> response option" where
  "run e b d w =
     (case b of
        None \<Rightarrow> catchBlock e None destructureError w
      | Some r \<Rightarrow>
          if falsy (contractCode r) \<or> falsy (testCode r) \<or> falsy (entryName r)
          then (w, Some \<lparr>status = 400, body = Json [(''error'', ''Missing required fields'')]\<rparr>)
          else
            (case stage e r w of
               Inl (m, w1) \<Rightarrow> catchBlock e (Some (uniqueTempDir e)) m w1
             | Inr w1 \<Rightarrow>
                 (case d of
                    Never_exits \<Rightarrow> (w1, None)
                  | Exited err out errout \<Rightarrow> execCallback e r err out errout w1)))"

subsection \<open>Notions used in the statements\<close>

text \<open>
  A segment that \<open>path.join\<close> appends as it is, and a path made of such segments.
\<close>

definition plain :: "string \<Rightarrow> bool" where
  "plain s \<longleftrightarrow> s \<noteq> [] \<and> s \<noteq> ''.'' \<and> s \<noteq> ''..'' \<and> CHR ''/'' \<notin> set s"

definition normal :: "path \<Rightarrow> bool" where
  "normal p \<longleftrightarrow> list_all plain p"


text \<open>The state the synchronous part leaves, whether it threw or not.\<close>

definition staged :: "(string \<times> fs) + fs \<Rightarrow> fs" where
  "staged x = (case x of Inl (m, w) \<Rightarrow> w | Inr w \<Rightarrow> w)"

text \<open>No file outside \<open>root\<close> differs between two states.\<close>

definition confined :: "path \<Rightarrow> fs \<Rightarrow> fs \<Rightarrow> bool" where
  "confined root w w' \<longleftrightarrow> (\<forall>q. \<not> inside root q \<longrightarrow> files w' q = files w q)"

text \<open>Nothing at or below \<open>root\<close> differs between two states.\<close>

definition untouched :: "path \<Rightarrow> fs \<Rightarrow> fs \<Rightarrow> bool" where
  "untouched root w w' \<longleftrightarrow>
     (\<forall>q. inside root q \<longrightarrow> (q \<in> dirs w' \<longleftrightarrow> q \<in> dirs w) \<and> files w' q = files w q)"

subsection \<open>Concrete requests\<close>

text \<open>
  A server in \<open>/srv/app\<close> whose \<open>tmp\<close> directory does not exist yet, the request
  \<open>{contractCode: "x = 1", testCode: "assert x == 1", entryName: "demo"}\<close> and a moment
  at which it arrives; no file-system call is refused. \<open>demo_dir\<close> is the directory
  the handler makes for it and \<open>demo_staged\<close> the file system once the two files are
  written.
\<close>

definition demo_fs :: fs where
  "demo_fs = \<lparr>dirs = {[], [''srv''], [''srv'', ''app'']}, files = Map.empty\<rparr>"

definition demo_request :: request where
  "demo_request =
     \<lparr>contractCode = Some ''x = 1'', testCode = Some ''assert x == 1'', entryName = Some ''demo''\<rparr>"

definition demo_env :: env where
  "demo_env =
     \<lparr>dirname = [''srv'', ''app''], timestamp = 1754000000000, randomId = ''k3x9q0a7'',
      isoTime = ''2025-08-01T00:00:00.000Z'', flt = (\<lambda>c. None)\<rparr>"

definition demo_dir :: path where
  "demo_dir = [''srv'', ''app'', ''tmp'', ''1754000000000_k3x9q0a7'']"

definition demo_staged :: fs where
  "demo_staged =
     \<lparr>dirs = {[], [''srv''], [''srv'', ''app''], [''srv'', ''app'', ''tmp''], demo_dir},
      files = [demo_dir @ [''demo.py''] \<mapsto> ''x = 1'', demo_dir @ [''test.py''] \<mapsto> ''assert x == 1'']\<rparr>"

text \<open>An operating system that refuses every \<open>rmSync\<close>.\<close>

definition rm_refused :: faults where
  "rm_refused c = (case c of Rm p \<Rightarrow> Some ''EACCES: permission denied, rmdir'' | _ \<Rightarrow> None)"


definition traversal_request :: request where
  "traversal_request = demo_request\<lparr>entryName := Some ''../../etc''\<rparr>"

text \<open>The same request under the entry name \<open>test\<close>.\<close>

definition test_request :: request where
  "test_request = demo_request\<lparr>entryName := Some ''test''\<rparr>"

text \<open>
  A second request in the same millisecond with another token, and a request whose
  entry name points into the directory of the first.
\<close>

definition second_env :: env where
  "second_env = demo_env\<lparr>randomId := ''p0w4zz1b''\<rparr>"

definition second_dir :: path where
  "second_dir = [''srv'', ''app'', ''tmp'', ''1754000000000_p0w4zz1b'']"

definition intruding_request :: request where
  "intruding_request =
     \<lparr>contractCode = Some ''x = 2'', testCode = Some ''assert x == 2'',
      entryName = Some ''../1754000000000_k3x9q0a7/demo''\<rparr>"

section \<open>Properties\<close>

subsection \<open>Decimal numerals\<close>

lemma dec_small: "n < 10 \<Longrightarrow> dec n = [digit_char n]"
  by (simp add: dec.simps[of n])

lemma dec_big: "10 \<le> n \<Longrightarrow> dec n = dec (n div 10) @ [digit_char (n mod 10)]"
  by (simp add: dec.simps[of n])

lemma below_ten: "d < 10 \<Longrightarrow> d \<in> {0, 1, 2, 3, 4, 5, 6, 7, 8, 9 :: nat}"
  by auto

lemma digit_char_digit: "d < 10 \<Longrightarrow> digit_char d \<in> set ''0123456789''"
  using below_ten[of d] by (auto simp: digit_char_def)

lemma digit_char_inj: "a < 10 \<Longrightarrow> b < 10 \<Longrightarrow> digit_char a = digit_char b \<Longrightarrow> a = b"
  using below_ten[of a] below_ten[of b] by (auto simp: digit_char_def)

lemma dec_digits: "c \<in> set (dec n) \<Longrightarrow> c \<in> set ''0123456789''"
proof (induction n rule: dec.induct)
  case (1 n)
  show ?case
  proof (cases "n < 10")
    case True
    with 1(2) show ?thesis
      using digit_char_digit[of n] by (simp add: dec_small)
  next
    case False
    with 1 show ?thesis
      using digit_char_digit[of "n mod 10"] by (auto simp: dec_big)
  qed
qed

lemma dec_nonempty: "dec n \<noteq> []"
  by (simp add: dec.simps[of n])

lemma dec_length1: "length (dec n) = Suc 0 \<longleftrightarrow> n < 10"
  by (simp add: dec.simps[of n] dec_nonempty)

lemma dec_inj: "dec n = dec m \<Longrightarrow> n = m"
proof (induction n arbitrary: m rule: dec.induct)
  case (1 n)
  show ?case
  proof (cases "n < 10")
    case True
    then have "length (dec m) = Suc 0"
      using 1(2) dec_length1[of n] by simp
    then have "m < 10"
      by (simp add: dec_length1)
    with True 1(2) show ?thesis
      by (simp add: dec_small digit_char_inj)
  next
    case False
    then have "length (dec m) \<noteq> Suc 0"
      using 1(2) dec_length1[of n] by simp
    then have m: "\<not> m < 10"
      by (simp add: dec_length1)
    from False m 1(2) have e: "dec (n div 10) = dec (m div 10)"
      and d: "digit_char (n mod 10) = digit_char (m mod 10)"
      by (simp_all add: dec_big)
    from 1(1)[OF False e] have "n div 10 = m div 10" .
    moreover from d have "n mod 10 = m mod 10"
      by (simp add: digit_char_inj)
    ultimately show ?thesis
      by (metis div_mult_mod_eq)
  qed
qed

text \<open>The name of the directory determines the time stamp and the token.\<close>

lemma takeWhile_dec: "takeWhile (\<lambda>c. c \<noteq> CHR ''_'') (dec n @ ''_'' @ s) = dec n"
proof -
  have "\<forall>c \<in> set (dec n). c \<noteq> CHR ''_''"
    using dec_digits[of _ n] by auto
  then show ?thesis
    by simp
qed

lemma name_inj:
  assumes "dec n @ ''_'' @ s = dec m @ ''_'' @ t"
  shows "n = m \<and> s = t"
proof -
  have "dec n = dec m"
    using takeWhile_dec[of n s] takeWhile_dec[of m t] assms by simp
  then show ?thesis
    using assms dec_inj by auto
qed

subsection \<open>Paths\<close>

lemma segments_plain: "CHR ''/'' \<notin> set s \<Longrightarrow> segments s = [s]"
  by (induction s) auto

lemma segments_nonempty: "segments s \<noteq> []"
  by (induction s) (auto split: list.splits)

lemma path_join_plain: "plain s \<Longrightarrow> path_join p [s] = p @ [s]"
  by (simp add: path_join_def plain_def segments_plain push_seg_def)

lemma path_join_two: "path_join p [a, b] = path_join (path_join p [a]) [b]"
  by (simp add: path_join_def)

lemma mem_neq: "x \<in> set a \<Longrightarrow> x \<notin> set b \<Longrightarrow> a \<noteq> b"
  by auto

lemma not_base36_notin: "\<not> base36 c \<Longrightarrow> list_all base36 s \<Longrightarrow> c \<notin> set s"
  by (auto simp: list_all_iff)

lemma base36_no_slash: "list_all base36 s \<Longrightarrow> CHR ''/'' \<notin> set s"
  by (rule not_base36_notin) (simp_all add: base36_def)

lemma base36_no_dot: "list_all base36 s \<Longrightarrow> CHR ''.'' \<notin> set s"
  by (rule not_base36_notin) (simp_all add: base36_def)

lemma name_plain:
  assumes "list_all base36 s"
  shows "plain (dec n @ ''_'' @ s)"
proof -
  have "CHR ''/'' \<notin> set (dec n)"
    using dec_digits[of "CHR ''/''" n] by auto
  moreover have "CHR ''_'' \<in> set (dec n @ ''_'' @ s)"
    by simp
  then have "dec n @ ''_'' @ s \<noteq> ''.''" "dec n @ ''_'' @ s \<noteq> ''..''"
    by (rule mem_neq, simp)+
  ultimately show ?thesis
    using assms by (simp add: plain_def base36_no_slash)
qed

lemma py_plain:
  assumes "CHR ''/'' \<notin> set n"
  shows "plain (n @ ''.py'')"
proof -
  have "CHR ''y'' \<in> set (n @ ''.py'')"
    by simp
  then have "n @ ''.py'' \<noteq> ''.''" "n @ ''.py'' \<noteq> ''..''"
    by (rule mem_neq, simp)+
  then show ?thesis
    using assms by (simp add: plain_def)
qed

lemma tmpDir_eq: "tmpDir e = dirname e @ [''tmp'']"
  by (simp add: tmpDir_def path_join_plain plain_def)

lemma logFile_eq: "logFile e = tmpDir e @ [''docker_output.log'']"
  by (simp add: logFile_def tmpDir_eq path_join_two path_join_plain plain_def)

lemma uniqueTempDir_eq:
  "wf_env e \<Longrightarrow> uniqueTempDir e = tmpDir e @ [dec (timestamp e) @ ''_'' @ randomId e]"
proof -
  assume "wf_env e"
  then have "plain (dec (timestamp e) @ ''_'' @ randomId e)"
    by (simp only: wf_env_def name_plain)
  then have "path_join (tmpDir e) [dec (timestamp e) @ ''_'' @ randomId e]
      = tmpDir e @ [dec (timestamp e) @ ''_'' @ randomId e]"
    by (rule path_join_plain)
  then show ?thesis
    by (simp only: uniqueTempDir_def tmpDir_def path_join_two)
qed

lemma testFile_eq: "testFile e = uniqueTempDir e @ [''test.py'']"
  by (simp add: testFile_def path_join_plain plain_def)

lemma contractFile_eq:
  "entryName r = Some n \<Longrightarrow> CHR ''/'' \<notin> set n \<Longrightarrow> contractFile e r = uniqueTempDir e @ [n @ ''.py'']"
  by (simp add: contractFile_def str_def path_join_plain py_plain)

lemma contractFile_inside:
  assumes "wf_env e" and "entryName r = Some n" and "CHR ''/'' \<notin> set n"
  shows "inside (tmpDir e) (contractFile e r)"
  using assms(1) contractFile_eq[OF assms(2,3), of e]
  by (simp add: inside_def uniqueTempDir_eq)

text \<open>
  Reading the rendered string of a normalised path back gives the path: passing the
  segments to \<open>path_join\<close> where the JavaScript passes the string loses nothing.
\<close>

lemma segments_append:
  "CHR ''/'' \<notin> set s \<Longrightarrow> segments (s @ t) = (s @ hd (segments t)) # tl (segments t)"
proof (induction s)
  case Nil
  then show ?case
    using segments_nonempty[of t] by simp
next
  case (Cons c s)
  then show ?case
    by (auto split: list.splits)
qed

lemma segments_render:
  "normal p \<Longrightarrow> p \<noteq> [] \<Longrightarrow> segments (concat (map (\<lambda>s. ''/'' @ s) p)) = [] # p"
proof (induction p)
  case Nil
  then show ?case by simp
next
  case (Cons s ps)
  then have s: "CHR ''/'' \<notin> set s"
    by (simp add: normal_def plain_def)
  show ?case
  proof (cases "ps = []")
    case True
    with s show ?thesis by (simp add: segments_plain)
  next
    case False
    with Cons have "segments (concat (map (\<lambda>s. ''/'' @ s) ps)) = [] # ps"
      by (simp add: normal_def)
    with s show ?thesis
      by (simp add: segments_append)
  qed
qed

lemma foldl_push_normal: "normal p \<Longrightarrow> foldl push_seg q p = q @ p"
  by (induction p arbitrary: q) (auto simp: normal_def plain_def push_seg_def)

lemma path_str_roundtrip: "normal p \<Longrightarrow> path_join [] [path_str p] = p"
proof (cases "p = []")
  case True
  then show ?thesis
    by (simp add: path_join_def path_str_def push_seg_def)
next
  case False
  assume "normal p"
  with False show ?thesis
    by (simp add: path_join_def path_str_def segments_render foldl_push_normal push_seg_def)
qed





lemma name_not_log:
  assumes "list_all base36 s"
  shows "dec n @ ''_'' @ s \<noteq> ''docker_output.log''"
proof -
  have "CHR ''.'' \<notin> set (dec n)"
    using dec_digits[of "CHR ''.''" n] by auto
  moreover have "CHR ''.'' \<notin> set s"
    using assms by (rule base36_no_dot)
  ultimately have *: "CHR ''.'' \<notin> set (dec n @ ''_'' @ s)"
    by simp
  show ?thesis
  proof
    assume eq: "dec n @ ''_'' @ s = ''docker_output.log''"
    have "CHR ''.'' \<in> set ''docker_output.log''"
      by simp
    then have "CHR ''.'' \<in> set (dec n @ ''_'' @ s)"
      by (simp only: eq)
    with * show False
      by (rule notE)
  qed
qed

lemma log_outside_workspace: "wf_env e \<Longrightarrow> \<not> inside (uniqueTempDir e) (logFile e)"
  using name_not_log[of "randomId e" "timestamp e"]
  by (simp add: uniqueTempDir_eq logFile_eq inside_def wf_env_def)



lemma distinct_workspaces:
  assumes "wf_env e1" and "wf_env e2" and "dirname e1 = dirname e2"
    and "(timestamp e1, randomId e1) \<noteq> (timestamp e2, randomId e2)"
  shows "uniqueTempDir e1 \<noteq> uniqueTempDir e2"
    and "\<not> inside (uniqueTempDir e1) (uniqueTempDir e2)"
    and "\<not> inside (uniqueTempDir e2) (uniqueTempDir e1)"
proof -
  have "dec (timestamp e1) @ ''_'' @ randomId e1 \<noteq> dec (timestamp e2) @ ''_'' @ randomId e2"
    using assms(4) name_inj[of "timestamp e1" "randomId e1" "timestamp e2" "randomId e2"]
    by auto
  then show "uniqueTempDir e1 \<noteq> uniqueTempDir e2"
    and "\<not> inside (uniqueTempDir e1) (uniqueTempDir e2)"
    and "\<not> inside (uniqueTempDir e2) (uniqueTempDir e1)"
    using assms(1-3) by (auto simp: uniqueTempDir_eq tmpDir_eq inside_def)
qed

lemma contractFile_apart:
  assumes "wf_env e1" and "wf_env e2" and "dirname e1 = dirname e2"
    and "(timestamp e1, randomId e1) \<noteq> (timestamp e2, randomId e2)"
    and "entryName r2 = Some n2" and "CHR ''/'' \<notin> set n2"
  shows "\<not> inside (uniqueTempDir e1) (contractFile e2 r2)"
proof -
  have "tmpDir e2 = tmpDir e1"
    using assms(3) by (simp add: tmpDir_eq)
  then show ?thesis
    using distinct_workspaces(2)[OF assms(1-4)] contractFile_eq[OF assms(5,6), of e2] assms(1,2)
    by (simp add: inside_def uniqueTempDir_eq)
qed

subsection \<open>File-system calls\<close>

lemma mkdirSync_Inr:
  "mkdirSync f p w = Inr w' \<Longrightarrow> w' = w\<lparr>dirs := dirs w \<union> set (prefixes p)\<rparr>"
  by (auto simp: mkdirSync_def split: option.splits if_splits)

lemma writeFileSync_Inr:
  "writeFileSync f p c w = Inr w' \<Longrightarrow> w' = w\<lparr>files := (files w)(p \<mapsto> c)\<rparr>"
  by (auto simp: writeFileSync_def split: option.splits if_splits)

lemma appendFileSync_Inr:
  "appendFileSync f p c w = Inr w' \<Longrightarrow>
     w' = w\<lparr>files := (files w)(p \<mapsto> (case files w p of None \<Rightarrow> c | Some old \<Rightarrow> old @ c))\<rparr>"
  by (auto simp: appendFileSync_def split: option.splits if_splits)

lemma stage_Inr:
  assumes "stage e r w = Inr w'"
  shows "w' = w\<lparr>dirs := dirs w \<union> set (prefixes (uniqueTempDir e)),
                 files := (files w)(contractFile e r \<mapsto> str (contractCode r), testFile e \<mapsto> str (testCode r))\<rparr>"
  using assms
  by (auto simp: stage_def split: sum.splits dest!: mkdirSync_Inr writeFileSync_Inr)

lemma stage_Inl:
  assumes "stage e r w = Inl (m, w')"
  shows "w' = w \<or> w' = w\<lparr>dirs := dirs w \<union> set (prefixes (uniqueTempDir e))\<rparr>
       \<or> w' = w\<lparr>dirs := dirs w \<union> set (prefixes (uniqueTempDir e)),
                 files := (files w)(contractFile e r \<mapsto> str (contractCode r))\<rparr>"
  using assms
  by (auto simp: stage_def split: sum.splits dest!: mkdirSync_Inr writeFileSync_Inr)

text \<open>For an entry name without a path separator, staging succeeds exactly when nothing stands in its way.\<close>

lemma stage_plain_iff:
  assumes "contractCode r = Some c" and "testCode r = Some t"
    and "entryName r = Some n" and "CHR ''/'' \<notin> set n"
  shows "stage e r w = Inr w1 \<longleftrightarrow>
       flt e (Mkdir (uniqueTempDir e)) = None
     \<and> flt e (Write (uniqueTempDir e @ [n @ ''.py''])) = None
     \<and> flt e (Write (uniqueTempDir e @ [''test.py''])) = None
     \<and> (\<forall>q \<in> set (prefixes (uniqueTempDir e)). files w q = None)
     \<and> uniqueTempDir e @ [n @ ''.py''] \<notin> dirs w
     \<and> uniqueTempDir e @ [''test.py''] \<notin> dirs w
     \<and> w1 = w\<lparr>dirs := dirs w \<union> set (prefixes (uniqueTempDir e)),
              files := (files w)(uniqueTempDir e @ [n @ ''.py''] \<mapsto> c,
                                 uniqueTempDir e @ [''test.py''] \<mapsto> t)\<rparr>"
proof -
  have cf: "contractFile e r = uniqueTempDir e @ [n @ ''.py'']"
    by (rule contractFile_eq[OF assms(3,4)])
  have s: "str (contractCode r) = c" "str (testCode r) = t"
    using assms(1,2) by (simp_all add: str_def)
  show ?thesis
    unfolding stage_def cf testFile_eq s mkdirSync_def writeFileSync_def
    by (auto split: option.splits)
qed

lemma stage_dir_exists:
  assumes "stage e r w = Inr w1"
  shows "uniqueTempDir e \<in> dirs w1"
  using stage_Inr[OF assms] by simp


lemma cleanup_cases:
  "cleanup e w = w \<or>
   cleanup e w = \<lparr>dirs = {d \<in> dirs w. \<not> inside (uniqueTempDir e) d},
                   files = (\<lambda>q. if inside (uniqueTempDir e) q then None else files w q)\<rparr>"
  by (auto simp: cleanup_def rmSync_def split: option.splits)

lemma cleanup_removes:
  assumes "flt e (Rm (uniqueTempDir e)) = None"
  shows "\<not> existsSync (uniqueTempDir e) (cleanup e w)"
  using assms by (auto simp: cleanup_def rmSync_def existsSync_def inside_def)

lemma cleanup_refused: "flt e (Rm (uniqueTempDir e)) = Some m \<Longrightarrow> cleanup e w = w"
  by (simp add: cleanup_def rmSync_def)


lemma cleanup_outside: "\<not> inside (uniqueTempDir e) q \<Longrightarrow> files (cleanup e w) q = files w q"
  using cleanup_cases[of e w] by auto

lemma appendLog_dirs: "p \<in> dirs w \<Longrightarrow> p \<in> dirs (appendLog e c w)"
  by (auto simp: appendLog_def split: sum.splits if_splits
      dest!: mkdirSync_Inr appendFileSync_Inr)

lemma appendLog_other_file: "q \<noteq> logFile e \<Longrightarrow> files (appendLog e c w) q = files w q"
  by (auto simp: appendLog_def split: sum.splits if_splits
      dest!: mkdirSync_Inr appendFileSync_Inr)


subsection \<open>The branches of the handler\<close>

lemma catchBlock_assigned:
  "catchBlock e (Some (uniqueTempDir e)) m w
     = (cleanup e w, Some \<lparr>status = 500, body = Text (''Server error: '' @ m)\<rparr>)"
  by (simp add: catchBlock_def cleanup_def)

lemma catchBlock_null:
  "catchBlock e None m w = (w, Some \<lparr>status = 500, body = Text (''Server error: '' @ m)\<rparr>)"
  by (simp add: catchBlock_def)

lemma run_unparsed:
  "run e None d w
     = (w, Some \<lparr>status = 500, body = Text (''Server error: '' @ destructureError)\<rparr>)"
  by (simp add: run_def catchBlock_null)

lemma run_invalid:
  "falsy (contractCode r) \<or> falsy (testCode r) \<or> falsy (entryName r) \<Longrightarrow>
     run e (Some r) d w = (w, Some \<lparr>status = 400, body = Json [(''error'', ''Missing required fields'')]\<rparr>)"
  by (simp add: run_def)

lemma run_staging_failed:
  assumes "\<not> falsy (contractCode r)" "\<not> falsy (testCode r)" "\<not> falsy (entryName r)"
    and "stage e r w = Inl (m, w1)"
  shows "run e (Some r) d w = catchBlock e (Some (uniqueTempDir e)) m w1"
  using assms by (simp add: run_def)

lemma run_never_exits:
  assumes "\<not> falsy (contractCode r)" "\<not> falsy (testCode r)" "\<not> falsy (entryName r)"
    and "stage e r w = Inr w1"
  shows "run e (Some r) Never_exits w = (w1, None)"
  using assms by (simp add: run_def)

lemma run_exited:
  assumes "\<not> falsy (contractCode r)" "\<not> falsy (testCode r)" "\<not> falsy (entryName r)"
    and "stage e r w = Inr w1"
  shows "run e (Some r) (Exited err out errout) w = execCallback e r err out errout w1"
  using assms by (simp add: run_def)

lemma execCallback_response:
  "snd (execCallback e r err out errout w)
     = Some \<lparr>status = 200, body = Text (if errout = [] then out else out @ nl @ errout)\<rparr>"
  by (simp add: execCallback_def Let_def output_text_def)

lemma execCallback_state:
  "fst (execCallback e r err out errout w) = cleanup e (appendLog e (logContent e r err out errout) w)"
  by (simp add: execCallback_def Let_def)



subsection \<open>Where the handler writes\<close>

lemma inside_trans: "inside a b \<Longrightarrow> inside b c \<Longrightarrow> inside a c"
  by (auto simp: inside_def)

lemma confined_refl: "confined root w w"
  by (simp add: confined_def)

lemma confined_trans: "confined root w w1 \<Longrightarrow> confined root w1 w2 \<Longrightarrow> confined root w w2"
  by (simp add: confined_def)

lemma confined_write: "inside root p \<Longrightarrow> confined root w (w\<lparr>files := (files w)(p \<mapsto> c)\<rparr>)"
  by (auto simp: confined_def)

lemma confined_rm:
  "inside root p \<Longrightarrow>
     confined root w \<lparr>dirs = d, files = (\<lambda>q. if inside p q then None else files w q)\<rparr>"
  by (auto simp: confined_def dest: inside_trans)

lemma confined_stage:
  assumes "inside root (contractFile e r)" and "inside root (testFile e)"
  shows "confined root w (staged (stage e r w))"
proof (cases "stage e r w")
  case (Inl a)
  then obtain m w1 where "stage e r w = Inl (m, w1)"
    by (cases a) simp
  then show ?thesis
    using stage_Inl[of e r w m w1] assms(1)
    by (auto simp: staged_def confined_def)
next
  case (Inr w1)
  then show ?thesis
    using stage_Inr[of e r w w1] assms
    by (auto simp: staged_def confined_def)
qed

lemma confined_appendLog:
  assumes "inside root (logFile e)"
  shows "confined root w (appendLog e c w)"
  using assms
  by (auto simp: appendLog_def confined_def split: sum.splits if_splits
      dest!: mkdirSync_Inr appendFileSync_Inr)

lemma confined_cleanup:
  assumes "inside root (uniqueTempDir e)"
  shows "confined root w (cleanup e w)"
  using cleanup_cases[of e w] confined_rm[OF assms, of w] confined_refl[of root w]
  by auto

lemma confined_catchBlock:
  assumes "inside root (uniqueTempDir e)"
  shows "confined root w (fst (catchBlock e (Some (uniqueTempDir e)) m w))"
    and "confined root w (fst (catchBlock e None m w))"
  using confined_cleanup[OF assms, of w]
  by (simp_all add: catchBlock_assigned catchBlock_null confined_refl)

lemma confined_execCallback:
  assumes "inside root (uniqueTempDir e)" and "inside root (logFile e)"
  shows "confined root w (fst (execCallback e r err out errout w))"
  unfolding execCallback_state
  by (rule confined_trans[OF confined_appendLog[OF assms(2)] confined_cleanup[OF assms(1)]])

subsection \<open>What the handler leaves alone\<close>

lemma untouched_refl: "untouched root w w"
  by (simp add: untouched_def)

lemma untouched_trans: "untouched root w w1 \<Longrightarrow> untouched root w1 w2 \<Longrightarrow> untouched root w w2"
  by (simp add: untouched_def)

lemma untouched_mkdir:
  assumes "\<not> inside root p"
  shows "untouched root w (w\<lparr>dirs := dirs w \<union> set (prefixes p)\<rparr>)"
proof -
  have "q \<notin> set (prefixes p)" if "inside root q" for q
    using that assms by (auto simp: inside_def)
  then show ?thesis
    by (auto simp: untouched_def)
qed

lemma untouched_write:
  "\<not> inside root p \<Longrightarrow> untouched root w (w\<lparr>files := (files w)(p \<mapsto> c)\<rparr>)"
  by (auto simp: untouched_def)

lemma untouched_rm:
  assumes "\<not> inside root p" and "\<not> inside p root"
  shows "untouched root w
     \<lparr>dirs = {d \<in> dirs w. \<not> inside p d}, files = (\<lambda>q. if inside p q then None else files w q)\<rparr>"
proof -
  have "\<not> inside p q" if "inside root q" for q
    using that assms prefix_same_cases[of root q p] by (auto simp: inside_def)
  then show ?thesis
    by (simp add: untouched_def)
qed

lemma untouched_stage:
  assumes "\<not> inside root (uniqueTempDir e)" and "\<not> inside root (contractFile e r)"
    and "\<not> inside root (testFile e)"
  shows "untouched root w (staged (stage e r w))"
proof -
  let ?w1 = "w\<lparr>dirs := dirs w \<union> set (prefixes (uniqueTempDir e))\<rparr>"
  let ?w2 = "?w1\<lparr>files := (files ?w1)(contractFile e r \<mapsto> str (contractCode r))\<rparr>"
  let ?w3 = "?w2\<lparr>files := (files ?w2)(testFile e \<mapsto> str (testCode r))\<rparr>"
  have 1: "untouched root w ?w1"
    by (rule untouched_mkdir[OF assms(1)])
  have 2: "untouched root w ?w2"
    by (rule untouched_trans[OF 1 untouched_write[OF assms(2)]])
  have 3: "untouched root w ?w3"
    by (rule untouched_trans[OF 2 untouched_write[OF assms(3)]])
  show ?thesis
  proof (cases "stage e r w")
    case (Inl a)
    then obtain m w1 where "stage e r w = Inl (m, w1)"
      by (cases a) simp
    then show ?thesis
      using stage_Inl[of e r w m w1] 1 2 untouched_refl[of root w]
      by (auto simp: staged_def)
  next
    case (Inr w1)
    then show ?thesis
      using stage_Inr[of e r w w1] 3 by (simp add: staged_def)
  qed
qed

lemma untouched_appendLog:
  assumes "\<not> inside root (tmpDir e)" and "\<not> inside root (logFile e)"
  shows "untouched root w (appendLog e c w)"
proof -
  have m: "untouched root w w1" if "mkdirSync (flt e) (tmpDir e) w = Inr w1" for w1
    using mkdirSync_Inr[OF that] untouched_mkdir[OF assms(1), of w] by simp
  have a: "untouched root w1 w2" if "appendFileSync (flt e) (logFile e) c w1 = Inr w2" for w1 w2
    using appendFileSync_Inr[OF that] untouched_write[OF assms(2), of w1] by simp
  show ?thesis
    by (auto simp: appendLog_def untouched_refl split: sum.splits
        intro: m a untouched_trans)
qed

lemma untouched_cleanup:
  assumes "\<not> inside root (uniqueTempDir e)" and "\<not> inside (uniqueTempDir e) root"
  shows "untouched root w (cleanup e w)"
  using cleanup_cases[of e w] untouched_rm[OF assms, of w] untouched_refl[of root w]
  by auto

lemma untouched_catchBlock_null: "untouched root w (fst (catchBlock e None m w))"
  by (simp add: catchBlock_null untouched_refl)

subsection \<open>The concrete requests, evaluated\<close>

lemma wf_demo_env: "wf_env demo_env"
  by (simp add: wf_env_def demo_env_def base36_def)

lemma demo_timestamp: "dec 1754000000000 = ''1754000000000''"
  by (simp add: dec_small dec_big digit_char_def)

lemma uniqueTempDir_demo: "uniqueTempDir demo_env = demo_dir"
proof -
  have "uniqueTempDir demo_env
      = tmpDir demo_env @ [dec (timestamp demo_env) @ ''_'' @ randomId demo_env]"
    by (rule uniqueTempDir_eq[OF wf_demo_env])
  also have "\<dots> = demo_dir"
    by (simp add: tmpDir_eq demo_env_def demo_timestamp demo_dir_def)
  finally show ?thesis .
qed

lemma tmpDir_demo: "tmpDir demo_env = [''srv'', ''app'', ''tmp'']"
  by (simp add: tmpDir_eq demo_env_def)

lemma logFile_demo: "logFile demo_env = [''srv'', ''app'', ''tmp'', ''docker_output.log'']"
  by (simp add: logFile_eq tmpDir_demo)


lemma valid_demo_request:
  "\<not> falsy (contractCode demo_request)" "\<not> falsy (testCode demo_request)"
  "\<not> falsy (entryName demo_request)"
  by (simp_all add: falsy_def demo_request_def)

lemma contractFile_demo: "contractFile demo_env demo_request = demo_dir @ [''demo.py'']"
proof -
  have "entryName demo_request = Some ''demo''"
    by (simp add: demo_request_def)
  then have "contractFile demo_env demo_request = uniqueTempDir demo_env @ [''demo'' @ ''.py'']"
    by (rule contractFile_eq) simp
  then show ?thesis
    by (simp add: uniqueTempDir_demo)
qed

lemma testFile_demo: "testFile demo_env = demo_dir @ [''test.py'']"
  by (simp add: testFile_eq uniqueTempDir_demo)

lemma flt_demo: "flt demo_env c = None"
  by (simp add: demo_env_def)

lemma stage_demo_faults:
  assumes "f (Mkdir demo_dir) = None"
    and "f (Write (demo_dir @ [''demo.py''])) = None"
    and "f (Write (demo_dir @ [''test.py''])) = None"
  shows "stage (demo_env\<lparr>flt := f\<rparr>) demo_request demo_fs = Inr demo_staged"
proof -
  let ?e = "demo_env\<lparr>flt := f\<rparr>"
  have u: "uniqueTempDir ?e = demo_dir"
    using uniqueTempDir_demo by (simp add: uniqueTempDir_def)
  have c: "contractFile ?e demo_request = demo_dir @ [''demo.py'']"
    using contractFile_demo u by (simp add: contractFile_def uniqueTempDir_demo)
  have t: "testFile ?e = demo_dir @ [''test.py'']"
    using testFile_demo u by (simp add: testFile_def uniqueTempDir_demo)
  have 1: "mkdirSync f demo_dir demo_fs = Inr (demo_fs\<lparr>dirs := dirs demo_staged\<rparr>)"
    using assms(1) by (auto simp: mkdirSync_def demo_fs_def demo_dir_def demo_staged_def)
  have 2: "writeFileSync f (demo_dir @ [''demo.py'']) ''x = 1''
        (demo_fs\<lparr>dirs := dirs demo_staged\<rparr>)
      = Inr (demo_fs\<lparr>dirs := dirs demo_staged, files := [demo_dir @ [''demo.py''] \<mapsto> ''x = 1'']\<rparr>)"
    using assms(2) by (simp add: writeFileSync_def demo_fs_def demo_dir_def demo_staged_def)
  have 3: "writeFileSync f (demo_dir @ [''test.py'']) ''assert x == 1''
        (demo_fs\<lparr>dirs := dirs demo_staged, files := [demo_dir @ [''demo.py''] \<mapsto> ''x = 1'']\<rparr>)
      = Inr demo_staged"
    using assms(3) by (simp add: writeFileSync_def demo_fs_def demo_dir_def demo_staged_def)
  have 4: "str (contractCode demo_request) = ''x = 1''" "str (testCode demo_request) = ''assert x == 1''"
    by (simp_all add: str_def demo_request_def)
  show ?thesis
    by (simp add: stage_def u c t 1 2 3 4)
qed

lemma stage_demo: "stage demo_env demo_request demo_fs = Inr demo_staged"
proof -
  have 1: "mkdirSync (flt demo_env) demo_dir demo_fs
      = Inr (demo_fs\<lparr>dirs := dirs demo_staged\<rparr>)"
    by (auto simp: mkdirSync_def flt_demo demo_fs_def demo_dir_def demo_staged_def)
  have 2: "writeFileSync (flt demo_env) (demo_dir @ [''demo.py'']) ''x = 1''
        (demo_fs\<lparr>dirs := dirs demo_staged\<rparr>)
      = Inr (demo_fs\<lparr>dirs := dirs demo_staged, files := [demo_dir @ [''demo.py''] \<mapsto> ''x = 1'']\<rparr>)"
    by (simp add: writeFileSync_def flt_demo demo_fs_def demo_dir_def demo_staged_def)
  have 3: "writeFileSync (flt demo_env) (demo_dir @ [''test.py'']) ''assert x == 1''
        (demo_fs\<lparr>dirs := dirs demo_staged, files := [demo_dir @ [''demo.py''] \<mapsto> ''x = 1'']\<rparr>)
      = Inr demo_staged"
    by (simp add: writeFileSync_def flt_demo demo_fs_def demo_dir_def demo_staged_def)
  have 4: "str (contractCode demo_request) = ''x = 1''" "str (testCode demo_request) = ''assert x == 1''"
    by (simp_all add: str_def demo_request_def)
  show ?thesis
    by (simp add: stage_def uniqueTempDir_demo contractFile_demo testFile_demo 1 2 3 4)
qed




lemma valid_traversal_request:
  "\<not> falsy (contractCode traversal_request)" "\<not> falsy (testCode traversal_request)"
  "\<not> falsy (entryName traversal_request)"
  by (simp_all add: falsy_def traversal_request_def demo_request_def)

lemma contractFile_traversal:
  "contractFile demo_env traversal_request = [''srv'', ''app'', ''etc.py'']"
  by (simp add: contractFile_def uniqueTempDir_demo traversal_request_def str_def path_join_def
      push_seg_def demo_dir_def)

lemma stage_traversal:
  "stage demo_env traversal_request demo_fs
     = Inr (demo_staged\<lparr>files :=
          [[''srv'', ''app'', ''etc.py''] \<mapsto> ''x = 1'', demo_dir @ [''test.py''] \<mapsto> ''assert x == 1'']\<rparr>)"
proof -
  have 1: "mkdirSync (flt demo_env) demo_dir demo_fs = Inr (demo_fs\<lparr>dirs := dirs demo_staged\<rparr>)"
    by (auto simp: mkdirSync_def flt_demo demo_fs_def demo_dir_def demo_staged_def)
  have 2: "writeFileSync (flt demo_env) [''srv'', ''app'', ''etc.py''] ''x = 1''
        (demo_fs\<lparr>dirs := dirs demo_staged\<rparr>)
      = Inr (demo_fs\<lparr>dirs := dirs demo_staged, files := [[''srv'', ''app'', ''etc.py''] \<mapsto> ''x = 1'']\<rparr>)"
    by (simp add: writeFileSync_def flt_demo demo_fs_def demo_dir_def demo_staged_def)
  have 3: "writeFileSync (flt demo_env) (demo_dir @ [''test.py'']) ''assert x == 1''
        (demo_fs\<lparr>dirs := dirs demo_staged, files := [[''srv'', ''app'', ''etc.py''] \<mapsto> ''x = 1'']\<rparr>)
      = Inr (demo_staged\<lparr>files :=
          [[''srv'', ''app'', ''etc.py''] \<mapsto> ''x = 1'', demo_dir @ [''test.py''] \<mapsto> ''assert x == 1'']\<rparr>)"
    by (simp add: writeFileSync_def flt_demo demo_fs_def demo_dir_def demo_staged_def)
  have 4: "str (contractCode traversal_request) = ''x = 1''"
    "str (testCode traversal_request) = ''assert x == 1''"
    by (simp_all add: str_def demo_request_def traversal_request_def)
  show ?thesis
    by (simp add: stage_def uniqueTempDir_demo contractFile_traversal testFile_demo 1 2 3 4)
qed

lemma valid_test_request:
  "\<not> falsy (contractCode test_request)" "\<not> falsy (testCode test_request)"
  "\<not> falsy (entryName test_request)"
  by (simp_all add: falsy_def test_request_def demo_request_def)

lemma contractFile_test: "contractFile demo_env test_request = demo_dir @ [''test.py'']"
proof -
  have "entryName test_request = Some ''test''"
    by (simp add: test_request_def)
  then have "contractFile demo_env test_request = uniqueTempDir demo_env @ [''test'' @ ''.py'']"
    by (rule contractFile_eq) simp
  then show ?thesis
    by (simp add: uniqueTempDir_demo)
qed

lemma stage_test:
  "stage demo_env test_request demo_fs
     = Inr (demo_staged\<lparr>files := [demo_dir @ [''test.py''] \<mapsto> ''assert x == 1'']\<rparr>)"
proof -
  have 1: "mkdirSync (flt demo_env) demo_dir demo_fs = Inr (demo_fs\<lparr>dirs := dirs demo_staged\<rparr>)"
    by (auto simp: mkdirSync_def flt_demo demo_fs_def demo_dir_def demo_staged_def)
  have 2: "writeFileSync (flt demo_env) (demo_dir @ [''test.py'']) ''x = 1''
        (demo_fs\<lparr>dirs := dirs demo_staged\<rparr>)
      = Inr (demo_fs\<lparr>dirs := dirs demo_staged, files := [demo_dir @ [''test.py''] \<mapsto> ''x = 1'']\<rparr>)"
    by (simp add: writeFileSync_def flt_demo demo_fs_def demo_dir_def demo_staged_def)
  have 3: "writeFileSync (flt demo_env) (demo_dir @ [''test.py'']) ''assert x == 1''
        (demo_fs\<lparr>dirs := dirs demo_staged, files := [demo_dir @ [''test.py''] \<mapsto> ''x = 1'']\<rparr>)
      = Inr (demo_staged\<lparr>files := [demo_dir @ [''test.py''] \<mapsto> ''assert x == 1'']\<rparr>)"
    by (simp add: writeFileSync_def flt_demo demo_fs_def demo_dir_def demo_staged_def)
  have 4: "str (contractCode test_request) = ''x = 1''"
    "str (testCode test_request) = ''assert x == 1''"
    by (simp_all add: str_def demo_request_def test_request_def)
  show ?thesis
    by (simp add: stage_def uniqueTempDir_demo contractFile_test testFile_demo 1 2 3 4)
qed

lemma wf_second_env: "wf_env second_env"
  by (simp add: wf_env_def second_env_def demo_env_def base36_def)

lemma uniqueTempDir_second: "uniqueTempDir second_env = second_dir"
proof -
  have "uniqueTempDir second_env
      = tmpDir second_env @ [dec (timestamp second_env) @ ''_'' @ randomId second_env]"
    by (rule uniqueTempDir_eq[OF wf_second_env])
  also have "\<dots> = second_dir"
    by (simp add: tmpDir_eq second_env_def demo_env_def demo_timestamp second_dir_def)
  finally show ?thesis .
qed

lemma contractFile_intruding: "contractFile second_env intruding_request = demo_dir @ [''demo.py'']"
  by (simp add: contractFile_def uniqueTempDir_second intruding_request_def str_def path_join_def
      push_seg_def demo_dir_def second_dir_def)

lemma stage_intruding:
  "stage second_env intruding_request demo_staged
     = Inr (demo_staged\<lparr>dirs := insert second_dir (dirs demo_staged),
          files := (files demo_staged)(demo_dir @ [''demo.py''] \<mapsto> ''x = 2'',
             second_dir @ [''test.py''] \<mapsto> ''assert x == 2'')\<rparr>)"
proof -
  have f: "flt second_env c = None" for c
    by (simp add: second_env_def demo_env_def)
  have 1: "mkdirSync (flt second_env) second_dir demo_staged
      = Inr (demo_staged\<lparr>dirs := insert second_dir (dirs demo_staged)\<rparr>)"
    by (auto simp: mkdirSync_def f demo_dir_def second_dir_def demo_staged_def)
  have 2: "writeFileSync (flt second_env) (demo_dir @ [''demo.py'']) ''x = 2''
        (demo_staged\<lparr>dirs := insert second_dir (dirs demo_staged)\<rparr>)
      = Inr (demo_staged\<lparr>dirs := insert second_dir (dirs demo_staged),
          files := (files demo_staged)(demo_dir @ [''demo.py''] \<mapsto> ''x = 2'')\<rparr>)"
    by (simp add: writeFileSync_def f demo_dir_def second_dir_def demo_staged_def)
  have 3: "writeFileSync (flt second_env) (second_dir @ [''test.py'']) ''assert x == 2''
        (demo_staged\<lparr>dirs := insert second_dir (dirs demo_staged),
          files := (files demo_staged)(demo_dir @ [''demo.py''] \<mapsto> ''x = 2'')\<rparr>)
      = Inr (demo_staged\<lparr>dirs := insert second_dir (dirs demo_staged),
          files := (files demo_staged)(demo_dir @ [''demo.py''] \<mapsto> ''x = 2'',
             second_dir @ [''test.py''] \<mapsto> ''assert x == 2'')\<rparr>)"
    by (simp add: writeFileSync_def f demo_dir_def second_dir_def demo_staged_def)
  have 4: "str (contractCode intruding_request) = ''x = 2''"
    "str (testCode intruding_request) = ''assert x == 2''"
    by (simp_all add: str_def intruding_request_def)
  show ?thesis
    by (simp add: stage_def uniqueTempDir_second contractFile_intruding testFile_eq 1 2 3 4)
qed

subsection \<open>Path traversal (C1)\<close>

text \<open>
  C1 does not hold of the handler. The entry name is neither rejected nor changed: it
  goes into \<open>path.join\<close> as it came. The request with \<open>entryName: "../../etc"\<close> is
  answered with status 200, and after it the file \<open>/srv/app/etc.py\<close>, which is not
  under \<open>/srv/app/tmp\<close> and was not there before, holds the contract code.
\<close>

theorem entry_name_escapes_temp_root_counterexample:
  "entryName traversal_request = Some ''../../etc''
   \<and> map_option status (snd (run demo_env (Some traversal_request) (Exited None ''ok'' []) demo_fs)) = Some 200
   \<and> files demo_fs [''srv'', ''app'', ''etc.py''] = None
   \<and> files (fst (run demo_env (Some traversal_request) (Exited None ''ok'' []) demo_fs))
        [''srv'', ''app'', ''etc.py''] = Some ''x = 1''
   \<and> \<not> inside (tmpDir demo_env) [''srv'', ''app'', ''etc.py'']"
proof -
  note r = run_exited[OF valid_traversal_request stage_traversal]
  have "files (fst (run demo_env (Some traversal_request) (Exited None ''ok'' []) demo_fs))
        [''srv'', ''app'', ''etc.py''] = Some ''x = 1''"
    unfolding r execCallback_state
    by (simp add: cleanup_outside appendLog_other_file uniqueTempDir_demo logFile_demo
        inside_def demo_dir_def)
  moreover have "map_option status (snd (run demo_env (Some traversal_request) (Exited None ''ok'' []) demo_fs)) = Some 200"
    unfolding r by (simp add: execCallback_response)
  ultimately show ?thesis
    by (simp add: traversal_request_def demo_fs_def tmpDir_demo inside_def)
qed

text \<open>
  C1, as the handler has it: the entry name is used as it came. When it has no path
  separator, the contract file is the file \<open>entryName.py\<close> in the directory of the
  request, which is under the temporary root. Whenever the contract file is under the
  temporary root, staging changes no file outside the temporary root; the callback and
  the \<open>catch\<close> block never do. This is about the handler's own calls of \<open>fs\<close>: what
  the command that \<open>exec\<close> hands to the shell does is no part of it. (The temporary
  root and its ancestors are created when missing; they are directories.)
\<close>

theorem own_writes_stay_under_temp_root:
  assumes "wf_env e"
  shows "(entryName r = Some n \<and> CHR ''/'' \<notin> set n \<longrightarrow>
            contractFile e r = uniqueTempDir e @ [n @ ''.py'']
          \<and> inside (tmpDir e) (contractFile e r))
     \<and> (inside (tmpDir e) (contractFile e r) \<longrightarrow> confined (tmpDir e) w (staged (stage e r w)))
     \<and> confined (tmpDir e) w (fst (execCallback e r err out errout w))
     \<and> confined (tmpDir e) w (fst (catchBlock e (Some (uniqueTempDir e)) m w))
     \<and> confined (tmpDir e) w (fst (catchBlock e None m w))"
proof -
  have u: "inside (tmpDir e) (uniqueTempDir e)"
    using assms by (simp add: inside_def uniqueTempDir_eq)
  then have t: "inside (tmpDir e) (testFile e)"
    by (simp add: inside_def testFile_eq)
  have l: "inside (tmpDir e) (logFile e)"
    by (simp add: inside_def logFile_eq)
  have "confined (tmpDir e) w (staged (stage e r w))" if "inside (tmpDir e) (contractFile e r)"
    by (rule confined_stage[OF that t])
  then show ?thesis
    using contractFile_eq[of r n e] contractFile_inside[OF assms, of r n]
      confined_execCallback[OF u l, of w r err out errout] confined_catchBlock[OF u, of w m]
    by blast
qed

text \<open>The request with the entry name \<open>demo\<close>, step by step.\<close>

theorem own_writes_stay_under_temp_root_witness:
  "wf_env demo_env \<and> entryName demo_request = Some ''demo'' \<and> CHR ''/'' \<notin> set ''demo''
   \<and> contractFile demo_env demo_request = uniqueTempDir demo_env @ [''demo'' @ ''.py'']
   \<and> inside (tmpDir demo_env) (contractFile demo_env demo_request)
   \<and> confined (tmpDir demo_env) demo_fs (staged (stage demo_env demo_request demo_fs))
   \<and> confined (tmpDir demo_env) demo_staged
        (fst (execCallback demo_env demo_request None ''ok'' [] demo_staged))
   \<and> confined (tmpDir demo_env) demo_staged
        (fst (catchBlock demo_env (Some (uniqueTempDir demo_env))
               ''ENOSPC: no space left on device, write'' demo_staged))
   \<and> confined (tmpDir demo_env) demo_fs (fst (catchBlock demo_env None destructureError demo_fs))"
proof -
  have "entryName demo_request = Some ''demo''" "CHR ''/'' \<notin> set ''demo''"
    by (simp_all add: demo_request_def)
  then show ?thesis
    using own_writes_stay_under_temp_root
        [OF wf_demo_env, of demo_request "''demo''" demo_fs None "''ok''" "[]" "''x''"]
      own_writes_stay_under_temp_root
        [OF wf_demo_env, of demo_request "''demo''" demo_staged None "''ok''" "[]"
          "''ENOSPC: no space left on device, write''"]
      own_writes_stay_under_temp_root
        [OF wf_demo_env, of demo_request "''demo''" demo_fs None "''ok''" "[]" destructureError]
      wf_demo_env
    by blast
qed

subsection \<open>A docker process that fails (C2)\<close>




subsection \<open>Removal of the directory (C3)\<close>

text \<open>
  C3 does not hold of the handler when \<open>rmSync\<close> throws: the error is caught and
  printed, the response is sent all the same, and the directory is still there.
\<close>

theorem workspace_left_when_rm_throws_counterexample:
  "snd (run (demo_env\<lparr>flt := rm_refused\<rparr>) (Some demo_request) (Exited None ''ok'' []) demo_fs) \<noteq> None
   \<and> existsSync (uniqueTempDir (demo_env\<lparr>flt := rm_refused\<rparr>))
        (fst (run (demo_env\<lparr>flt := rm_refused\<rparr>) (Some demo_request) (Exited None ''ok'' []) demo_fs))"
proof -
  let ?e = "demo_env\<lparr>flt := rm_refused\<rparr>"
  have s: "stage ?e demo_request demo_fs = Inr demo_staged"
    by (rule stage_demo_faults) (simp_all add: rm_refused_def)
  have "cleanup ?e w = w" for w
    by (rule cleanup_refused[of _ "''EACCES: permission denied, rmdir''"]) (simp add: rm_refused_def)
  then show ?thesis
    by (simp add: run_exited[OF valid_demo_request s] execCallback_response execCallback_state
        existsSync_def appendLog_dirs stage_dir_exists[OF s])
qed

text \<open>
  C3, as the handler has it: for every request that passes validation (only for those
  is a directory made) and is answered, on the success path, on the docker-error path
  and on the exception path alike, the directory of the request does not exist once the
  handler is through, unless \<open>rmSync\<close> throws.
\<close>

theorem workspace_removed_unless_rm_throws:
  assumes "\<not> falsy (contractCode r)" "\<not> falsy (testCode r)" "\<not> falsy (entryName r)"
    and "flt e (Rm (uniqueTempDir e)) = None"
    and "snd (run e (Some r) d w) \<noteq> None"
  shows "\<not> existsSync (uniqueTempDir e) (fst (run e (Some r) d w))"
proof (cases "stage e r w")
  case (Inl a)
  then obtain m w1 where "stage e r w = Inl (m, w1)"
    by (cases a) simp
  then show ?thesis
    using assms by (simp add: run_staging_failed catchBlock_assigned cleanup_removes)
next
  case (Inr w1)
  show ?thesis
  proof (cases d)
    case (Exited err out errout)
    then show ?thesis
      using assms Inr by (simp add: run_exited execCallback_state cleanup_removes)
  next
    case Never_exits
    then show ?thesis
      using assms Inr by (simp add: run_never_exits)
  qed
qed

text \<open>The request \<open>demo\<close> on the success path.\<close>

theorem workspace_removed_unless_rm_throws_witness:
  "\<not> falsy (contractCode demo_request) \<and> \<not> falsy (testCode demo_request)
   \<and> \<not> falsy (entryName demo_request)
   \<and> flt demo_env (Rm (uniqueTempDir demo_env)) = None
   \<and> snd (run demo_env (Some demo_request) (Exited None ''ok'' []) demo_fs) \<noteq> None
   \<and> \<not> existsSync (uniqueTempDir demo_env)
        (fst (run demo_env (Some demo_request) (Exited None ''ok'' []) demo_fs))"
proof -
  have "snd (run demo_env (Some demo_request) (Exited None ''ok'' []) demo_fs) \<noteq> None"
    by (simp add: run_exited[OF valid_demo_request stage_demo] execCallback_response)
  then show ?thesis
    using workspace_removed_unless_rm_throws
      [OF valid_demo_request flt_demo, of "Exited None ''ok'' []" demo_fs]
    by (simp add: valid_demo_request flt_demo)
qed

subsection \<open>The response after the process has exited (C4)\<close>

text \<open>
  C4 does not hold of the handler as stated: the body is not stdout followed at once
  by stderr. With \<open>ok\<close> on stdout and \<open>warn\<close> on stderr the body is \<open>ok\<close>, a
  newline and \<open>warn\<close>, not \<open>okwarn\<close>.
\<close>

theorem newline_between_streams_counterexample:
  "map_option status (snd (run demo_env (Some demo_request) (Exited None ''ok'' ''warn'') demo_fs)) = Some 200
   \<and> map_option body (snd (run demo_env (Some demo_request) (Exited None ''ok'' ''warn'') demo_fs))
       = Some (Text (''ok'' @ nl @ ''warn''))
   \<and> map_option body (snd (run demo_env (Some demo_request) (Exited None ''ok'' ''warn'') demo_fs))
       \<noteq> Some (Text (''ok'' @ ''warn''))"
  by (simp add: run_exited[OF valid_demo_request stage_demo] execCallback_response nl_def)

text \<open>
  C4, as the handler has it: for every request that passes validation, is staged and
  whose docker process exits, with or without an error, the response has status 200;
  its body is the captured stdout when stderr is empty, and otherwise the captured
  stdout, a newline and the captured stderr. Of the captured text only the emptiness of
  stderr is looked at.
\<close>

theorem response_is_stdout_then_newline_and_stderr:
  assumes "\<not> falsy (contractCode r)" "\<not> falsy (testCode r)" "\<not> falsy (entryName r)"
    and "stage e r w = Inr w1"
  shows "snd (run e (Some r) (Exited err out errout) w)
     = Some \<lparr>status = 200, body = Text (if errout = [] then out else out @ nl @ errout)\<rparr>"
  by (simp add: run_exited[OF assms] execCallback_response)

text \<open>The request \<open>demo\<close> with a failing test and a warning on stderr.\<close>

theorem response_is_stdout_then_newline_and_stderr_witness:
  "\<not> falsy (contractCode demo_request) \<and> \<not> falsy (testCode demo_request)
   \<and> \<not> falsy (entryName demo_request)
   \<and> stage demo_env demo_request demo_fs = Inr demo_staged
   \<and> snd (run demo_env (Some demo_request) (Exited (Some ''Command failed'') ''1 failed'' ''warn'') demo_fs)
       = Some \<lparr>status = 200, body = Text (''1 failed'' @ nl @ ''warn'')\<rparr>"
  using response_is_stdout_then_newline_and_stderr
    [OF valid_demo_request stage_demo, of "Some ''Command failed''" "''1 failed''" "''warn''"]
  by (simp add: valid_demo_request stage_demo)

subsection \<open>A process that never exits (C5)\<close>




subsection \<open>Validation (C6, C10)\<close>

text \<open>
  C6 does not hold of every request in which the fields are missing. When no JSON body
  was parsed and \<open>req.body\<close> is \<open>undefined\<close>, the destructuring throws before the
  validation is reached and the \<open>catch\<close> block answers with status 500, not 400. No
  directory is made on that path either.
\<close>

theorem unparsed_body_answered_500_counterexample:
  "fst (run demo_env None (Exited None ''ok'' []) demo_fs) = demo_fs
   \<and> map_option status (snd (run demo_env None (Exited None ''ok'' []) demo_fs)) = Some 500"
  by (simp add: run_unparsed)

text \<open>
  C6, as the handler has it: a request whose body is an object in which one of the
  three fields is missing (absent or empty) is answered with status 400, and the
  handler returns before any call of \<open>fs\<close>: the file system is as it was, so no
  directory has been created under the temporary root. The file system is as it was
  for a request without a parsed body as well.
\<close>

theorem missing_field_rejected_before_any_effect:
  assumes "falsy (contractCode r) \<or> falsy (testCode r) \<or> falsy (entryName r)"
  shows "fst (run e (Some r) d w) = w
     \<and> map_option status (snd (run e (Some r) d w)) = Some 400
     \<and> fst (run e None d w) = w"
  using assms by (simp add: run_invalid run_unparsed)

text \<open>The request \<open>demo\<close> without its test code, and a request without a body.\<close>

theorem missing_field_rejected_witness:
  "(falsy (contractCode (demo_request\<lparr>testCode := None\<rparr>))
      \<or> falsy (testCode (demo_request\<lparr>testCode := None\<rparr>))
      \<or> falsy (entryName (demo_request\<lparr>testCode := None\<rparr>)))
   \<and> fst (run demo_env (Some (demo_request\<lparr>testCode := None\<rparr>)) Never_exits demo_fs) = demo_fs
   \<and> map_option status (snd (run demo_env (Some (demo_request\<lparr>testCode := None\<rparr>)) Never_exits demo_fs))
       = Some 400
   \<and> fst (run demo_env None Never_exits demo_fs) = demo_fs"
  using missing_field_rejected_before_any_effect
    [of "demo_request\<lparr>testCode := None\<rparr>" demo_env Never_exits demo_fs]
  by (simp add: falsy_def)

text \<open>
  C10 does not hold of every request in which the fields are absent. For a request
  without a parsed body the response is the text of the \<open>TypeError\<close>, which names
  \<open>contractCode\<close>, and not the fixed JSON object.
\<close>

theorem unparsed_body_names_a_field_counterexample:
  "map_option body (snd (run demo_env None (Exited None ''ok'' []) demo_fs))
     = Some (Text (''Server error: '' @ destructureError))
   \<and> map_option body (snd (run demo_env None (Exited None ''ok'' []) demo_fs))
     \<noteq> Some (Json [(''error'', ''Missing required fields'')])"
  by (simp add: run_unparsed)

text \<open>
  C10, as the handler has it: for a request whose body is an object in which one of the
  three fields is missing, the body of the response is the JSON object with the one
  member \<open>error\<close>, \<open>Missing required fields\<close>, whichever field is missing; and
  every response with status 400 that the handler sends, to whatever request, has this
  body.
\<close>

theorem missing_field_body_fixed:
  assumes "falsy (contractCode r) \<or> falsy (testCode r) \<or> falsy (entryName r)"
  shows "map_option body (snd (run e (Some r) d w))
       = Some (Json [(''error'', ''Missing required fields'')])
     \<and> (map_option status (snd (run e' b d' w')) = Some 400 \<longrightarrow>
          map_option body (snd (run e' b d' w'))
            = Some (Json [(''error'', ''Missing required fields'')]))"
proof -
  have "map_option body (snd (run e' b d' w')) = Some (Json [(''error'', ''Missing required fields'')])"
    if s: "map_option status (snd (run e' b d' w')) = Some 400"
  proof (cases b)
    case None
    with s show ?thesis
      by (simp add: run_unparsed)
  next
    case (Some r')
    show ?thesis
    proof (cases "falsy (contractCode r') \<or> falsy (testCode r') \<or> falsy (entryName r')")
      case True
      then show ?thesis
        using Some by (simp add: run_invalid)
    next
      case False
      then have v: "\<not> falsy (contractCode r')" "\<not> falsy (testCode r')" "\<not> falsy (entryName r')"
        by simp_all
      show ?thesis
      proof (cases "stage e' r' w'")
        case (Inl a)
        then obtain m w1 where "stage e' r' w' = Inl (m, w1)"
          by (cases a) simp
        then show ?thesis
          using s Some by (simp add: run_staging_failed[OF v] catchBlock_assigned)
      next
        case (Inr w1)
        then show ?thesis
          using s Some
          by (cases d') (simp_all add: run_exited[OF v] run_never_exits[OF v] execCallback_response)
      qed
    qed
  qed
  then show ?thesis
    using assms by (simp add: run_invalid)
qed

text \<open>The request \<open>demo\<close> with an empty entry name.\<close>

theorem missing_field_body_fixed_witness:
  "(falsy (contractCode (demo_request\<lparr>entryName := Some []\<rparr>))
      \<or> falsy (testCode (demo_request\<lparr>entryName := Some []\<rparr>))
      \<or> falsy (entryName (demo_request\<lparr>entryName := Some []\<rparr>)))
   \<and> map_option status (snd (run demo_env (Some (demo_request\<lparr>entryName := Some []\<rparr>)) Never_exits demo_fs))
       = Some 400
   \<and> map_option body (snd (run demo_env (Some (demo_request\<lparr>entryName := Some []\<rparr>)) Never_exits demo_fs))
       = Some (Json [(''error'', ''Missing required fields'')])"
proof -
  have f: "falsy (contractCode (demo_request\<lparr>entryName := Some []\<rparr>))
      \<or> falsy (testCode (demo_request\<lparr>entryName := Some []\<rparr>))
      \<or> falsy (entryName (demo_request\<lparr>entryName := Some []\<rparr>))"
    by (simp add: falsy_def)
  have "map_option status (snd (run demo_env (Some (demo_request\<lparr>entryName := Some []\<rparr>)) Never_exits demo_fs))
       = Some 400"
    by (simp add: run_invalid[OF f])
  then show ?thesis
    using missing_field_body_fixed
      [OF f, of demo_env Never_exits demo_fs demo_env
        "Some (demo_request\<lparr>entryName := Some []\<rparr>)" Never_exits demo_fs] f
    by blast
qed

subsection \<open>Log records (C7)\<close>




subsection \<open>Two requests (C8)\<close>

text \<open>
  C8 does not hold of every two requests. Two requests that draw the same time stamp
  and the same token get the same directory. And with two different directories, a
  request whose entry name leads into the directory of the other overwrites the
  contract file staged there.
\<close>

theorem workspaces_not_always_apart_counterexample:
  "uniqueTempDir (demo_env\<lparr>isoTime := ''2025-08-01T00:00:00.412Z''\<rparr>) = uniqueTempDir demo_env
   \<and> uniqueTempDir second_env \<noteq> uniqueTempDir demo_env
   \<and> inside (uniqueTempDir demo_env) (demo_dir @ [''demo.py''])
   \<and> files demo_staged (demo_dir @ [''demo.py'']) = Some ''x = 1''
   \<and> files (staged (stage second_env intruding_request demo_staged)) (demo_dir @ [''demo.py''])
       = Some ''x = 2''"
proof -
  have "uniqueTempDir (demo_env\<lparr>isoTime := ''2025-08-01T00:00:00.412Z''\<rparr>) = uniqueTempDir demo_env"
    by (simp add: uniqueTempDir_def)
  moreover have "uniqueTempDir second_env \<noteq> uniqueTempDir demo_env"
    by (simp add: uniqueTempDir_second uniqueTempDir_demo second_dir_def demo_dir_def)
  moreover have "files demo_staged (demo_dir @ [''demo.py'']) = Some ''x = 1''"
    by (simp add: demo_staged_def)
  moreover have "files (staged (stage second_env intruding_request demo_staged)) (demo_dir @ [''demo.py''])
       = Some ''x = 2''"
    by (simp add: stage_intruding staged_def demo_dir_def second_dir_def)
  ultimately show ?thesis
    by (simp add: uniqueTempDir_demo inside_def)
qed

text \<open>
  C8, as the handler has it: the directory of a request is \<open>tmp/<timestamp>_<token>\<close>
  under \<open>__dirname\<close>; the entry name has no part in it. Two requests to one server
  whose time stamps or tokens differ have different directories, whatever their entry
  names. A step of the second request (its staging, its callback, its \<open>catch\<close>
  block) then leaves everything at and below the directory of the first as it was, the
  staging provided the contract file of the second does not lie in the directory of the
  first, which it never does for an entry name without a path separator.
\<close>

theorem workspaces_apart_when_draws_differ:
  assumes "wf_env e1" and "wf_env e2" and "dirname e1 = dirname e2"
    and "(timestamp e1, randomId e1) \<noteq> (timestamp e2, randomId e2)"
  shows "uniqueTempDir e1 = dirname e1 @ [''tmp'', dec (timestamp e1) @ ''_'' @ randomId e1]
     \<and> uniqueTempDir e1 \<noteq> uniqueTempDir e2
     \<and> (entryName r2 = Some n2 \<and> CHR ''/'' \<notin> set n2 \<longrightarrow>
          \<not> inside (uniqueTempDir e1) (contractFile e2 r2))
     \<and> (\<not> inside (uniqueTempDir e1) (contractFile e2 r2) \<longrightarrow>
          untouched (uniqueTempDir e1) w (staged (stage e2 r2 w)))
     \<and> untouched (uniqueTempDir e1) w (fst (execCallback e2 r2 err out errout w))
     \<and> untouched (uniqueTempDir e1) w (fst (catchBlock e2 (Some (uniqueTempDir e2)) m w))
     \<and> untouched (uniqueTempDir e1) w (fst (catchBlock e2 None m w))"
proof -
  note d = distinct_workspaces[OF assms(1-4)]
  have t: "tmpDir e2 = tmpDir e1"
    using assms(3) by (simp add: tmpDir_eq)
  have f: "\<not> inside (uniqueTempDir e1) (testFile e2)"
    using d(2) assms(1,2) by (simp add: inside_def uniqueTempDir_eq t testFile_eq)
  have r: "\<not> inside (uniqueTempDir e1) (tmpDir e2)"
    using assms(1) by (simp add: inside_def uniqueTempDir_eq t)
  have l: "\<not> inside (uniqueTempDir e1) (logFile e2)"
    using log_outside_workspace[OF assms(1)] by (simp add: logFile_eq t)
  have "untouched (uniqueTempDir e1) w (cleanup e2 (appendLog e2 c' w))" for c'
    using untouched_appendLog[OF r l] untouched_cleanup[OF d(2,3)]
    by (rule untouched_trans)
  moreover have "untouched (uniqueTempDir e1) w (staged (stage e2 r2 w))"
    if "\<not> inside (uniqueTempDir e1) (contractFile e2 r2)"
    by (rule untouched_stage[OF d(2) that f])
  moreover have "uniqueTempDir e1 = dirname e1 @ [''tmp'', dec (timestamp e1) @ ''_'' @ randomId e1]"
    using assms(1) by (simp add: uniqueTempDir_eq tmpDir_eq)
  ultimately show ?thesis
    using d(1) contractFile_apart[OF assms, of r2 n2] untouched_cleanup[OF d(2,3)]
    by (simp add: execCallback_state catchBlock_assigned untouched_catchBlock_null)
qed

text \<open>Two requests \<open>demo\<close> in one millisecond, the second arriving when the first is staged.\<close>

theorem workspaces_apart_witness:
  "wf_env demo_env \<and> wf_env second_env \<and> dirname demo_env = dirname second_env
   \<and> (timestamp demo_env, randomId demo_env) \<noteq> (timestamp second_env, randomId second_env)
   \<and> entryName demo_request = Some ''demo'' \<and> CHR ''/'' \<notin> set ''demo''
   \<and> uniqueTempDir demo_env
       = dirname demo_env @ [''tmp'', dec (timestamp demo_env) @ ''_'' @ randomId demo_env]
   \<and> uniqueTempDir demo_env \<noteq> uniqueTempDir second_env
   \<and> \<not> inside (uniqueTempDir demo_env) (contractFile second_env demo_request)
   \<and> untouched (uniqueTempDir demo_env) demo_staged (staged (stage second_env demo_request demo_staged))
   \<and> untouched (uniqueTempDir demo_env) demo_staged
        (fst (execCallback second_env demo_request None ''ok'' [] demo_staged))
   \<and> untouched (uniqueTempDir demo_env) demo_staged
        (fst (catchBlock second_env (Some (uniqueTempDir second_env))
               ''ENOSPC: no space left on device, write'' demo_staged))
   \<and> untouched (uniqueTempDir demo_env) demo_staged
        (fst (catchBlock second_env None ''ENOSPC: no space left on device, write'' demo_staged))"
proof -
  have 1: "dirname demo_env = dirname second_env"
    and 2: "(timestamp demo_env, randomId demo_env) \<noteq> (timestamp second_env, randomId second_env)"
    by (simp_all add: second_env_def demo_env_def)
  have 3: "entryName demo_request = Some ''demo''" and 4: "CHR ''/'' \<notin> set ''demo''"
    by (simp_all add: demo_request_def)
  show ?thesis
    using workspaces_apart_when_draws_differ[OF wf_demo_env wf_second_env 1 2,
        of demo_request "''demo''" demo_staged None "''ok''" "[]"
          "''ENOSPC: no space left on device, write''"]
      wf_demo_env wf_second_env 1 2 3 4
    by blast
qed

subsection \<open>Staging (C9)\<close>

text \<open>
  C9 does not hold of every entry name. For the entry name \<open>test\<close> the contract file
  and the test file are one file: the test code is written over the contract code, and
  after staging no file holds the contract code. And the entry name is not sanitised:
  for \<open>../../etc\<close> the contract code is written outside the directory of the
  request.
\<close>

theorem staging_loses_or_misplaces_contract_counterexample:
  "entryName test_request = Some ''test''
   \<and> contractCode test_request = Some ''x = 1''
   \<and> stage demo_env test_request demo_fs
       = Inr (demo_staged\<lparr>files := [demo_dir @ [''test.py''] \<mapsto> ''assert x == 1'']\<rparr>)
   \<and> entryName traversal_request = Some ''../../etc''
   \<and> files (staged (stage demo_env traversal_request demo_fs)) [''srv'', ''app'', ''etc.py'']
       = Some ''x = 1''
   \<and> \<not> inside (uniqueTempDir demo_env) [''srv'', ''app'', ''etc.py'']"
proof -
  have "entryName test_request = Some ''test''" "contractCode test_request = Some ''x = 1''"
    "entryName traversal_request = Some ''../../etc''"
    by (simp_all add: test_request_def traversal_request_def demo_request_def)
  moreover have "files (staged (stage demo_env traversal_request demo_fs)) [''srv'', ''app'', ''etc.py'']
       = Some ''x = 1''"
    by (simp add: stage_traversal staged_def demo_dir_def)
  moreover have "\<not> inside (uniqueTempDir demo_env) [''srv'', ''app'', ''etc.py'']"
    by (simp add: uniqueTempDir_demo demo_dir_def inside_def)
  ultimately show ?thesis
    using stage_test by simp
qed

text \<open>
  C9, as the handler has it, for an entry name without a path separator and other than
  \<open>test\<close>. Staging succeeds exactly when the operating system refuses none of its
  three calls, no file stands where the directory or one of its ancestors is to be, and
  no directory stands where one of the two files is to be; the state it leaves is then
  the one before it with the directory and its missing ancestors made, the contract
  code in \<open>entryName.py\<close> in the directory and the test code in \<open>test.py\<close> there.
  After it each of the two files holds its text as it came, and every other file is as
  it was. Nothing is run.
\<close>

theorem staging_writes_both_artifacts_verbatim:
  assumes "contractCode r = Some c" and "testCode r = Some t"
    and "entryName r = Some n" and "CHR ''/'' \<notin> set n" and "n \<noteq> ''test''"
  shows "(stage e r w = Inr w1 \<longleftrightarrow>
            flt e (Mkdir (uniqueTempDir e)) = None
          \<and> flt e (Write (uniqueTempDir e @ [n @ ''.py''])) = None
          \<and> flt e (Write (uniqueTempDir e @ [''test.py''])) = None
          \<and> (\<forall>q \<in> set (prefixes (uniqueTempDir e)). files w q = None)
          \<and> uniqueTempDir e @ [n @ ''.py''] \<notin> dirs w
          \<and> uniqueTempDir e @ [''test.py''] \<notin> dirs w
          \<and> w1 = w\<lparr>dirs := dirs w \<union> set (prefixes (uniqueTempDir e)),
                   files := (files w)(uniqueTempDir e @ [n @ ''.py''] \<mapsto> c,
                                      uniqueTempDir e @ [''test.py''] \<mapsto> t)\<rparr>)
     \<and> (stage e r w = Inr w1 \<longrightarrow>
            files w1 (uniqueTempDir e @ [n @ ''.py'']) = Some c
          \<and> files w1 (uniqueTempDir e @ [''test.py'']) = Some t
          \<and> (\<forall>q. q \<noteq> uniqueTempDir e @ [n @ ''.py''] \<and> q \<noteq> uniqueTempDir e @ [''test.py'']
                \<longrightarrow> files w1 q = files w q))"
proof -
  note i = stage_plain_iff[OF assms(1-4), of e w w1]
  have "files w1 (uniqueTempDir e @ [n @ ''.py'']) = Some c
      \<and> files w1 (uniqueTempDir e @ [''test.py'']) = Some t
      \<and> (\<forall>q. q \<noteq> uniqueTempDir e @ [n @ ''.py''] \<and> q \<noteq> uniqueTempDir e @ [''test.py'']
            \<longrightarrow> files w1 q = files w q)"
    if "stage e r w = Inr w1"
    using that assms(5) unfolding i by simp
  then show ?thesis
    using i by blast
qed

text \<open>The request \<open>demo\<close>.\<close>

theorem staging_writes_both_artifacts_verbatim_witness:
  "contractCode demo_request = Some ''x = 1''
   \<and> testCode demo_request = Some ''assert x == 1''
   \<and> entryName demo_request = Some ''demo''
   \<and> CHR ''/'' \<notin> set ''demo'' \<and> ''demo'' \<noteq> ''test''
   \<and> stage demo_env demo_request demo_fs = Inr demo_staged
   \<and> flt demo_env (Mkdir (uniqueTempDir demo_env)) = None
   \<and> flt demo_env (Write (uniqueTempDir demo_env @ [''demo'' @ ''.py''])) = None
   \<and> flt demo_env (Write (uniqueTempDir demo_env @ [''test.py''])) = None
   \<and> uniqueTempDir demo_env @ [''demo'' @ ''.py''] \<notin> dirs demo_fs
   \<and> uniqueTempDir demo_env @ [''test.py''] \<notin> dirs demo_fs
   \<and> demo_staged = demo_fs\<lparr>dirs := dirs demo_fs \<union> set (prefixes (uniqueTempDir demo_env)),
          files := (files demo_fs)(uniqueTempDir demo_env @ [''demo'' @ ''.py''] \<mapsto> ''x = 1'',
                                   uniqueTempDir demo_env @ [''test.py''] \<mapsto> ''assert x == 1'')\<rparr>
   \<and> files demo_staged (uniqueTempDir demo_env @ [''demo'' @ ''.py'']) = Some ''x = 1''
   \<and> files demo_staged (uniqueTempDir demo_env @ [''test.py'']) = Some ''assert x == 1''"
proof -
  have a: "contractCode demo_request = Some ''x = 1''" "testCode demo_request = Some ''assert x == 1''"
    "entryName demo_request = Some ''demo''" "CHR ''/'' \<notin> set ''demo''" "''demo'' \<noteq> ''test''"
    by (simp_all add: demo_request_def)
  show ?thesis
    using staging_writes_both_artifacts_verbatim[OF a, of demo_env demo_fs demo_staged]
      a stage_demo
    by blast
qed

end
